theory Spec2Isabelle
  imports Complex_Main
begin

section \<open>Data model\<close>

text \<open>
  The progression engine of the training log (the file with the effort-driven
  \<open>computeNextTarget\<close>) is embedded function by function.  JavaScript numbers are
  modelled as exact rationals (\<^typ>\<open>rat\<close>), timestamps and \<open>freezeDaysIfPain\<close> as
  integers; \<open>NaN\<close>, infinities and the rounding of doubles are outside the model.
  A property that may be \<open>undefined\<close> is an \<^typ>\<open>'a option\<close>; a thrown
  \<open>TypeError\<close> is the left injection of a sum.  Identifiers, ids and the display
  fields of the records play no part in the computations and are left out.
\<close>

definition DAY_MS :: int where
  "DAY_MS = 24 * 60 * 60 * 1000"

record progression_profile =
  targetRirMin :: rat
  targetRirMax :: rat
  maxWeeklyVolumeIncreasePct :: rat
  painWarn :: rat
  painReduce :: rat
  deloadDays :: rat
  deloadVolumeFactor :: rat
  freezeDaysIfPain :: int

definition defaultProgression :: progression_profile where
  "defaultProgression =
     \<lparr>targetRirMin = 3, targetRirMax = 5, maxWeeklyVolumeIncreasePct = 10,
      painWarn = 3, painReduce = 5, deloadDays = 7, deloadVolumeFactor = 65 / 100,
      freezeDaysIfPain = 2\<rparr>"

record log_entry =
  timestamp :: int
  status :: string
  reps :: "rat option"
  loadKg :: "rat option"
  durationSec :: "rat option"
  rir :: "rat option"
  pain0to10 :: "rat option"

record ctx =
  now :: int
  profile :: progression_profile

text \<open>The object \<open>{min, max}\<close> of \<open>repRange\<close> and \<open>durationRangeSec\<close>.\<close>

record range =
  range_min :: rat
  range_max :: rat

datatype js_error = TypeError

text \<open>
  The three classes.  A constructor argument is the field the JavaScript constructor
  assigns; \<open>repRange\<close> and \<open>durationRangeSec\<close> are copied from the input without a
  default and so may be \<open>undefined\<close>.
\<close>

datatype exercise =
    RepsExercise
      (progressionProfile: "progression_profile option")
      (repRange: "range option")
      (repIncrement: rat)
      (minRepsFloor: rat)
  | WeightedRepsExercise
      (progressionProfile: "progression_profile option")
      (repRange: "range option")
      (repIncrement: rat)
      (loadIncrementKg: rat)
  | IsometricExercise
      (progressionProfile: "progression_profile option")
      (durationRangeSec: "range option")
      (timeIncrementSec: rat)

text \<open>The stored exercise record, before \<open>hydrateExercise\<close>.\<close>

record exercise_record =
  rec_type :: string
  rec_progressionProfile :: "progression_profile option"
  rec_repRange :: "range option"
  rec_repIncrement :: "rat option"
  rec_minRepsFloor :: "rat option"
  rec_loadIncrementKg :: "rat option"
  rec_durationRangeSec :: "range option"
  rec_timeIncrementSec :: "rat option"

text \<open>What \<open>getRecentCompleteLogs\<close> returns.\<close>

record guardrails =
  recentLogs :: "log_entry list"
  g_profile :: progression_profile
  g_explanation :: "string list"
  g_frozen :: bool
  g_deload :: bool

record weekly_volume =
  volumeThisWeek :: rat
  volumePrevWeek :: rat

text \<open>The \<open>NextTarget\<close> object; a field a kind does not set is \<open>None\<close>.\<close>

record next_target =
  metricType :: string
  targetReps :: "rat option"
  targetLoadKg :: "rat option"
  targetDurationSec :: "rat option"
  explanation :: "string list"
  frozen :: bool
  deload :: bool

section \<open>JavaScript primitives\<close>

text \<open>\<open>a ?? b\<close> on a possibly undefined value.\<close>

definition nullish :: "'a option \<Rightarrow> 'a \<Rightarrow> 'a" where
  "nullish a b = (case a of Some v \<Rightarrow> v | None \<Rightarrow> b)"

text \<open>\<open>xs.slice(0, e)\<close>: a negative end counts from the end of the array.\<close>

definition slice0 :: "'a list \<Rightarrow> int \<Rightarrow> 'a list" where
  "slice0 xs e = (if e < 0 then take (nat (int (length xs) + e)) xs else take (nat e) xs)"

text \<open>\<open>xs.sort((a, b) => b.timestamp - a.timestamp)\<close>: stable, newest first.\<close>

definition sort_newest_first :: "log_entry list \<Rightarrow> log_entry list" where
  "sort_newest_first xs = sort_key (\<lambda>log. - timestamp log) xs"

text \<open>\<open>Math.round\<close>: the nearest integer, a tie going up.\<close>

definition Math_round :: "rat \<Rightarrow> rat" where
  "Math_round x = of_int \<lfloor>x + 1 / 2\<rfloor>"

definition clamp :: "rat \<Rightarrow> rat \<Rightarrow> rat \<Rightarrow> rat" where
  "clamp v lo hi = min (max v lo) hi"

definition median :: "rat list \<Rightarrow> rat" where
  "median vals =
     (if vals = [] then 0
      else let srt = sort vals; mid = length srt div 2
           in if length srt mod 2 = 0 then (srt ! (mid - 1) + srt ! mid) / 2
              else srt ! mid)"

section \<open>Guardrails and weekly volume\<close>

text \<open>The local \<open>recentLogs\<close> of \<open>getRecentCompleteLogs\<close>.\<close>

definition recentCompleteLogs :: "log_entry list \<Rightarrow> ctx \<Rightarrow> log_entry list" where
  "recentCompleteLogs logs c =
     slice0
       (sort_newest_first
          (filter (\<lambda>log. now c - timestamp log \<le> 14 * DAY_MS)
             (filter (\<lambda>log. status log = ''complete'') logs)))
       30"

text \<open>The local \<open>painFlags\<close> of \<open>getRecentCompleteLogs\<close>.\<close>

definition painFlags :: "log_entry list \<Rightarrow> progression_profile \<Rightarrow> log_entry list" where
  "painFlags logs p =
     slice0 (sort_newest_first (filter (\<lambda>log. pain0to10 log \<noteq> None) logs))
       (freezeDaysIfPain p)"

definition getRecentCompleteLogs ::
  "log_entry list \<Rightarrow> ctx \<Rightarrow> progression_profile option \<Rightarrow> guardrails" where
  "getRecentCompleteLogs logs c overrideProfile =
     (let p = nullish overrideProfile (profile c);
          flags = painFlags logs p;
          painHigh = list_ex (\<lambda>log. nullish (pain0to10 log) 0 \<ge> painReduce p) flags;
          painWarnStreak =
            (int (length flags) = freezeDaysIfPain p \<and>
             list_all (\<lambda>log. nullish (pain0to10 log) 0 \<ge> painWarn p) flags);
          dl = (painHigh \<or> painWarnStreak)
      in \<lparr>recentLogs = recentCompleteLogs logs c,
          g_profile = p,
          g_explanation = (if dl then [''Pain guardrails triggered a deload.''] else []),
          g_frozen = dl,
          g_deload = dl\<rparr>)"

definition getWeeklyVolume ::
  "log_entry list \<Rightarrow> int \<Rightarrow> (log_entry \<Rightarrow> rat) \<Rightarrow> weekly_volume" where
  "getWeeklyVolume logs t volumeFn =
     (let weekStart = t - 7 * DAY_MS;
          prevWeekStart = t - 14 * DAY_MS
      in \<lparr>volumeThisWeek =
            foldl (\<lambda>acc log. acc + volumeFn log) 0
              (filter (\<lambda>log. timestamp log \<ge> weekStart) logs),
          volumePrevWeek =
            foldl (\<lambda>acc log. acc + volumeFn log) 0
              (filter (\<lambda>log. timestamp log \<ge> prevWeekStart \<and> timestamp log < weekStart) logs)\<rparr>)"

section \<open>Throwing property reads\<close>

text \<open>\<open>this.repRange.min\<close> and \<open>this.repRange.max\<close> throw when the range is undefined.\<close>

definition prop_min :: "range option \<Rightarrow> js_error + rat" where
  "prop_min r = (case r of None \<Rightarrow> Inl TypeError | Some rr \<Rightarrow> Inr (range_min rr))"

definition prop_max :: "range option \<Rightarrow> js_error + rat" where
  "prop_max r = (case r of None \<Rightarrow> Inl TypeError | Some rr \<Rightarrow> Inr (range_max rr))"

definition bind_err :: "js_error + 'a \<Rightarrow> ('a \<Rightarrow> js_error + 'b) \<Rightarrow> js_error + 'b" where
  "bind_err m f = (case m of Inl e \<Rightarrow> Inl e | Inr v \<Rightarrow> f v)"

text \<open>\<open>a ?? b\<close> where evaluating \<open>b\<close> may throw; \<open>b\<close> is evaluated only if \<open>a\<close> is undefined.\<close>

definition nullish_or :: "'a option \<Rightarrow> js_error + 'a \<Rightarrow> js_error + 'a" where
  "nullish_or a b = (case a of Some v \<Rightarrow> Inr v | None \<Rightarrow> b)"

text \<open>\<open>recentLogs[0]\<close>, undefined on the empty array.\<close>

definition first_log :: "log_entry list \<Rightarrow> log_entry option" where
  "first_log xs = (case xs of [] \<Rightarrow> None | l # _ \<Rightarrow> Some l)"

section \<open>Next-target computation\<close>

text \<open>
  The locals \<open>recentRir\<close> and \<open>medianRir\<close>, computed the same way by the three
  \<open>computeNextTarget\<close> methods.
\<close>

definition medianRir :: "log_entry list \<Rightarrow> rat option" where
  "medianRir recent =
     (let recentRir = map the (filter (\<lambda>r. r \<noteq> None) (map rir recent))
      in if recentRir \<noteq> [] then Some (median recentRir) else None)"

text \<open>\<open>volumeIncreasePct\<close> and the test of the volume cap.\<close>

definition volumeIncreasePct :: "weekly_volume \<Rightarrow> rat" where
  "volumeIncreasePct v =
     (if volumePrevWeek v = 0 then 0
      else ((volumeThisWeek v - volumePrevWeek v) / volumePrevWeek v) * 100)"

definition capHit :: "weekly_volume \<Rightarrow> progression_profile \<Rightarrow> bool" where
  "capHit v p = (volumePrevWeek v > 0 \<and> volumeIncreasePct v > maxWeeklyVolumeIncreasePct p)"

definition RepsExercise_computeNextTarget ::
  "exercise \<Rightarrow> log_entry list \<Rightarrow> ctx \<Rightarrow> js_error + next_target" where
  "RepsExercise_computeNextTarget this logs c =
     (let g = getRecentCompleteLogs logs c (progressionProfile this);
          p = g_profile g;
          mRir = medianRir (recentLogs g)
      in bind_err
           (nullish_or (Option.bind (first_log (recentLogs g)) reps) (prop_min (repRange this)))
           (\<lambda>lastTarget.
      let effort =
            (case mRir of
               None \<Rightarrow> (lastTarget, [])
             | Some m \<Rightarrow>
                 if \<not> g_frozen g \<and> \<not> g_deload g then
                   (if m > targetRirMax p then
                      (lastTarget + repIncrement this, [''Effort was easy; nudging reps up.''])
                    else if m < targetRirMin p then
                      (lastTarget - repIncrement this, [''Effort was high; reducing reps.''])
                    else (lastTarget, []))
                 else (lastTarget, []))
      in bind_err (prop_max (repRange this))
           (\<lambda>rmax.
      let clamped = clamp (fst effort) (minRepsFloor this) rmax;
          v = getWeeklyVolume logs (now c) (\<lambda>log. nullish (reps log) 0);
          capped = (if capHit v p then lastTarget else clamped);
          notes = g_explanation g @ snd effort
                  @ (if capHit v p then [''Volume cap hit; holding steady.''] else [])
      in Inr \<lparr>metricType = ''reps'',
               targetReps =
                 Some (if g_deload g
                       then max (minRepsFloor this)
                              (Math_round (lastTarget * deloadVolumeFactor p))
                       else capped),
               targetLoadKg = None,
               targetDurationSec = None,
               explanation =
                 notes @ (if g_deload g then [''Deload active; reducing volume.''] else []),
               frozen = g_frozen g,
               deload = g_deload g\<rparr>)))"

definition WeightedRepsExercise_computeNextTarget ::
  "exercise \<Rightarrow> log_entry list \<Rightarrow> ctx \<Rightarrow> js_error + next_target" where
  "WeightedRepsExercise_computeNextTarget this logs c =
     (let g = getRecentCompleteLogs logs c (progressionProfile this);
          p = g_profile g;
          mRir = medianRir (recentLogs g);
          lastLog = first_log (recentLogs g)
      in bind_err (nullish_or (Option.bind lastLog reps) (prop_min (repRange this)))
           (\<lambda>lastReps.
      let lastLoad = nullish (Option.bind lastLog loadKg) (loadIncrementKg this * 4)
      in bind_err
           (case mRir of
              None \<Rightarrow> Inr (lastReps, lastLoad, [])
            | Some m \<Rightarrow>
                if \<not> g_frozen g \<and> \<not> g_deload g then
                  (if m > targetRirMax p then
                     bind_err (prop_max (repRange this))
                       (\<lambda>rmax.
                          if lastReps < rmax then
                            Inr (lastReps + repIncrement this, lastLoad,
                                 [''Effort was easy; nudging reps up.''])
                          else
                            bind_err (prop_min (repRange this))
                              (\<lambda>rmin.
                                 Inr (rmin, lastLoad + loadIncrementKg this,
                                      [''Hit top reps; adding load and resetting reps.''])))
                   else if m < targetRirMin p then
                     bind_err (prop_min (repRange this))
                       (\<lambda>rmin.
                          Inr (max rmin (lastReps - repIncrement this), lastLoad,
                               [''Effort was high; reducing reps.'']))
                   else Inr (lastReps, lastLoad, []))
                else Inr (lastReps, lastLoad, []))
           (\<lambda>(effortReps, effortLoad, effortNotes).
      let v = getWeeklyVolume logs (now c)
                (\<lambda>log. nullish (reps log) 0 * nullish (loadKg log) 0);
          cappedReps = (if capHit v p then lastReps else effortReps);
          cappedLoad = (if capHit v p then lastLoad else effortLoad);
          notes = g_explanation g @ effortNotes
                  @ (if capHit v p then [''Volume cap hit; holding steady.''] else [])
      in if g_deload g then
           bind_err (prop_min (repRange this))
             (\<lambda>rmin.
                Inr \<lparr>metricType = ''weightedReps'',
                     targetReps =
                       Some (max rmin (Math_round (lastReps * deloadVolumeFactor p))),
                     targetLoadKg =
                       Some (max (loadIncrementKg this)
                               (Math_round (lastLoad * deloadVolumeFactor p))),
                     targetDurationSec = None,
                     explanation = notes @ [''Deload active; reducing volume.''],
                     frozen = g_frozen g,
                     deload = g_deload g\<rparr>)
         else
           Inr \<lparr>metricType = ''weightedReps'',
                targetReps = Some cappedReps,
                targetLoadKg = Some cappedLoad,
                targetDurationSec = None,
                explanation = notes,
                frozen = g_frozen g,
                deload = g_deload g\<rparr>)))"

definition IsometricExercise_computeNextTarget ::
  "exercise \<Rightarrow> log_entry list \<Rightarrow> ctx \<Rightarrow> js_error + next_target" where
  "IsometricExercise_computeNextTarget this logs c =
     (let g = getRecentCompleteLogs logs c (progressionProfile this);
          p = g_profile g;
          mRir = medianRir (recentLogs g)
      in bind_err
           (nullish_or (Option.bind (first_log (recentLogs g)) durationSec)
              (prop_min (durationRangeSec this)))
           (\<lambda>lastTarget.
      let effort =
            (case mRir of
               None \<Rightarrow> (lastTarget, [])
             | Some m \<Rightarrow>
                 if \<not> g_frozen g \<and> \<not> g_deload g then
                   (if m > targetRirMax p then
                      (lastTarget + timeIncrementSec this, [''Effort was easy; nudging time up.''])
                    else if m < targetRirMin p then
                      (lastTarget - timeIncrementSec this, [''Effort was high; reducing time.''])
                    else (lastTarget, []))
                 else (lastTarget, []))
      in bind_err (prop_min (durationRangeSec this))
           (\<lambda>dmin.
         bind_err (prop_max (durationRangeSec this))
           (\<lambda>dmax.
      let clamped = clamp (fst effort) dmin dmax;
          v = getWeeklyVolume logs (now c) (\<lambda>log. nullish (durationSec log) 0);
          capped = (if capHit v p then lastTarget else clamped);
          notes = g_explanation g @ snd effort
                  @ (if capHit v p then [''Volume cap hit; holding steady.''] else [])
      in Inr \<lparr>metricType = ''isometric'',
               targetReps = None,
               targetLoadKg = None,
               targetDurationSec =
                 Some (if g_deload g
                       then max dmin (Math_round (lastTarget * deloadVolumeFactor p))
                       else capped),
               explanation =
                 notes @ (if g_deload g then [''Deload active; reducing volume.''] else []),
               frozen = g_frozen g,
               deload = g_deload g\<rparr>))))"

text \<open>Method dispatch on the class of the object.\<close>

definition computeNextTarget ::
  "exercise \<Rightarrow> log_entry list \<Rightarrow> ctx \<Rightarrow> js_error + next_target" where
  "computeNextTarget this logs c =
     (case this of
        RepsExercise _ _ _ _ \<Rightarrow> RepsExercise_computeNextTarget this logs c
      | WeightedRepsExercise _ _ _ _ \<Rightarrow> WeightedRepsExercise_computeNextTarget this logs c
      | IsometricExercise _ _ _ \<Rightarrow> IsometricExercise_computeNextTarget this logs c)"

definition hydrateExercise :: "exercise_record \<Rightarrow> exercise" where
  "hydrateExercise r =
     (if rec_type r = ''reps'' then
        RepsExercise (rec_progressionProfile r) (rec_repRange r)
          (nullish (rec_repIncrement r) 1) (nullish (rec_minRepsFloor r) 1)
      else if rec_type r = ''weighted'' then
        WeightedRepsExercise (rec_progressionProfile r) (rec_repRange r)
          (nullish (rec_repIncrement r) 1) (nullish (rec_loadIncrementKg r) (5 / 2))
      else
        IsometricExercise (rec_progressionProfile r) (rec_durationRangeSec r)
          (nullish (rec_timeIncrementSec r) 5))"

section \<open>Arrays in a store\<close>

text \<open>
  To see what the engine does to the array it is given, the arrays of log entries live
  in a store and are passed by address.  \<open>filter\<close> and \<open>slice\<close> allocate a new array;
  \<open>sort\<close> sorts the array it is called on in place and returns the same address.  Log
  entries are only read.  The arrays of numbers and of explanation strings are created
  inside the call and stay values.  Reading an address outside the store is left
  unspecified; the addresses below are always allocated.
\<close>

type_synonym addr = nat
type_synonym store = "log_entry list list"

definition arr_filter :: "(log_entry \<Rightarrow> bool) \<Rightarrow> addr \<Rightarrow> store \<Rightarrow> addr \<times> store" where
  "arr_filter P a s = (length s, s @ [filter P (s ! a)])"

definition arr_sort_newest_first :: "addr \<Rightarrow> store \<Rightarrow> addr \<times> store" where
  "arr_sort_newest_first a s = (a, s[a := sort_newest_first (s ! a)])"

definition arr_slice0 :: "addr \<Rightarrow> int \<Rightarrow> store \<Rightarrow> addr \<times> store" where
  "arr_slice0 a e s = (length s, s @ [slice0 (s ! a) e])"

definition getRecentCompleteLogs_store ::
  "addr \<Rightarrow> ctx \<Rightarrow> progression_profile option \<Rightarrow> store
     \<Rightarrow> (addr \<times> progression_profile \<times> string list \<times> bool \<times> bool) \<times> store" where
  "getRecentCompleteLogs_store logs c overrideProfile s =
     (let p = nullish overrideProfile (profile c);
          (a1, s1) = arr_filter (\<lambda>log. status log = ''complete'') logs s;
          (a2, s2) = arr_filter (\<lambda>log. now c - timestamp log \<le> 14 * DAY_MS) a1 s1;
          (a3, s3) = arr_sort_newest_first a2 s2;
          (recentRef, s4) = arr_slice0 a3 30 s3;
          (b1, s5) = arr_filter (\<lambda>log. pain0to10 log \<noteq> None) logs s4;
          (b2, s6) = arr_sort_newest_first b1 s5;
          (flagsRef, s7) = arr_slice0 b2 (freezeDaysIfPain p) s6;
          flags = s7 ! flagsRef;
          painHigh = list_ex (\<lambda>log. nullish (pain0to10 log) 0 \<ge> painReduce p) flags;
          painWarnStreak =
            (int (length flags) = freezeDaysIfPain p \<and>
             list_all (\<lambda>log. nullish (pain0to10 log) 0 \<ge> painWarn p) flags);
          dl = (painHigh \<or> painWarnStreak)
      in ((recentRef, p, (if dl then [''Pain guardrails triggered a deload.''] else []), dl, dl),
          s7))"

definition getWeeklyVolume_store ::
  "addr \<Rightarrow> int \<Rightarrow> (log_entry \<Rightarrow> rat) \<Rightarrow> store \<Rightarrow> weekly_volume \<times> store" where
  "getWeeklyVolume_store logs t volumeFn s =
     (let weekStart = t - 7 * DAY_MS;
          prevWeekStart = t - 14 * DAY_MS;
          (a1, s1) = arr_filter (\<lambda>log. timestamp log \<ge> weekStart) logs s;
          thisWeek = foldl (\<lambda>acc log. acc + volumeFn log) 0 (s1 ! a1);
          (a2, s2) =
            arr_filter (\<lambda>log. timestamp log \<ge> prevWeekStart \<and> timestamp log < weekStart) logs s1;
          prevWeek = foldl (\<lambda>acc log. acc + volumeFn log) 0 (s2 ! a2)
      in (\<lparr>volumeThisWeek = thisWeek, volumePrevWeek = prevWeek\<rparr>, s2))"

definition RepsExercise_computeNextTarget_store ::
  "exercise \<Rightarrow> addr \<Rightarrow> ctx \<Rightarrow> store \<Rightarrow> (js_error + next_target) \<times> store" where
  "RepsExercise_computeNextTarget_store this logs c s =
     (let ((recentRef, p, notes0, frz, dl), s1) =
            getRecentCompleteLogs_store logs c (progressionProfile this) s;
          mRir = medianRir (s1 ! recentRef)
      in (case nullish_or (Option.bind (first_log (s1 ! recentRef)) reps)
                 (prop_min (repRange this)) of
            Inl e \<Rightarrow> (Inl e, s1)
          | Inr lastTarget \<Rightarrow>
             (let effort =
                   (case mRir of
                      None \<Rightarrow> (lastTarget, [])
                    | Some m \<Rightarrow>
                        if \<not> frz \<and> \<not> dl then
                          (if m > targetRirMax p then
                             (lastTarget + repIncrement this,
                              [''Effort was easy; nudging reps up.''])
                           else if m < targetRirMin p then
                             (lastTarget - repIncrement this,
                              [''Effort was high; reducing reps.''])
                           else (lastTarget, []))
                        else (lastTarget, []))
              in (case prop_max (repRange this) of
                    Inl e \<Rightarrow> (Inl e, s1)
                  | Inr rmax \<Rightarrow>
                     (let clamped = clamp (fst effort) (minRepsFloor this) rmax;
                          (v, s2) = getWeeklyVolume_store logs (now c)
                                      (\<lambda>log. nullish (reps log) 0) s1;
                          capped = (if capHit v p then lastTarget else clamped);
                          notes = notes0 @ snd effort
                            @ (if capHit v p then [''Volume cap hit; holding steady.'']
                               else [])
                      in (Inr \<lparr>metricType = ''reps'',
                                targetReps =
                                  Some (if dl
                                        then max (minRepsFloor this)
                                               (Math_round (lastTarget * deloadVolumeFactor p))
                                        else capped),
                                targetLoadKg = None,
                                targetDurationSec = None,
                                explanation =
                                  notes @ (if dl then [''Deload active; reducing volume.'']
                                           else []),
                                frozen = frz,
                                deload = dl\<rparr>, s2))))))"

section \<open>The deployed variant: normalisation at hydration\<close>

text \<open>
  The copy of the application under \<open>docs/\<close> computes targets from a stored baseline
  and an intensity, and its \<open>hydrateExercise\<close> first runs \<open>normalizeExerciseRecord\<close>.
  Its functions that share a name with the engine above carry the suffix \<open>_docs\<close>.
\<close>

record top_set =
  ts_reps :: "rat option"
  ts_loadKg :: "rat option"

record baseline =
  maxCleanReps :: "rat option"
  topSet :: "top_set option"
  maxCleanHoldSec :: "rat option"
  intensityPct :: "rat option"

record docs_record =
  docs_type :: string
  docs_baseline :: "baseline option"
  docs_deloadUntil :: "int option"
  docs_repRange :: "range option"
  docs_loadIncrementKg :: "rat option"
  docs_durationRangeSec :: "range option"

datatype docs_exercise =
    RepsExercise_docs (baseline_of: baseline) (deloadUntil: "int option")
  | WeightedRepsExercise_docs (baseline_of: baseline) (deloadUntil: "int option")
  | IsometricExercise_docs (baseline_of: baseline) (deloadUntil: "int option")

record docs_target =
  docs_metricType :: string
  docs_reps :: "rat option"
  docs_loadKg :: "rat option"
  docs_durationSec :: "rat option"
  docs_explanation :: "string list"
  docs_deload :: bool

text \<open>The empty object \<open>{}\<close> as a baseline.\<close>

definition emptyBaseline :: baseline where
  "emptyBaseline =
     \<lparr>maxCleanReps = None, topSet = None, maxCleanHoldSec = None, intensityPct = None\<rparr>"

definition GTG_INTENSITY_normal :: rat where
  "GTG_INTENSITY_normal = 5 / 10"

definition INTENSITY_MIN :: rat where
  "INTENSITY_MIN = 3 / 10"

definition INTENSITY_MAX :: rat where
  "INTENSITY_MAX = 7 / 10"

definition normalizeIntensity :: "rat option \<Rightarrow> rat" where
  "normalizeIntensity v =
     (case v of None \<Rightarrow> GTG_INTENSITY_normal
      | Some x \<Rightarrow> clamp x INTENSITY_MIN INTENSITY_MAX)"

definition normalizeExerciseRecord :: "docs_record \<Rightarrow> docs_record" where
  "normalizeExerciseRecord r =
     (let b = nullish (docs_baseline r) emptyBaseline;
          b1 =
            (if docs_type r = ''reps'' then
               b\<lparr>maxCleanReps :=
                   Some (nullish (maxCleanReps b)
                          (nullish (map_option range_max (docs_repRange r)) 10))\<rparr>
             else if docs_type r = ''weighted'' then
               b\<lparr>topSet :=
                   Some (nullish (topSet b)
                          \<lparr>ts_reps = Some (nullish (map_option range_max (docs_repRange r)) 8),
                           ts_loadKg =
                             Some (case docs_loadIncrementKg r of
                                     None \<Rightarrow> 20
                                   | Some k \<Rightarrow> if k \<noteq> 0 then k * 4 else 20)\<rparr>)\<rparr>
             else
               b\<lparr>maxCleanHoldSec :=
                   Some (nullish (maxCleanHoldSec b)
                          (nullish (map_option range_max (docs_durationRangeSec r)) 30))\<rparr>);
          b2 = b1\<lparr>intensityPct :=
                    Some (normalizeIntensity
                            (Some (nullish (intensityPct b1) GTG_INTENSITY_normal)))\<rparr>
      in r\<lparr>docs_baseline := Some b2\<rparr>)"

definition hydrateExercise_docs :: "docs_record \<Rightarrow> docs_exercise" where
  "hydrateExercise_docs r =
     (let n = normalizeExerciseRecord r;
          b = nullish (docs_baseline n) emptyBaseline
      in if docs_type n = ''reps'' then RepsExercise_docs b (docs_deloadUntil n)
         else if docs_type n = ''weighted'' then WeightedRepsExercise_docs b (docs_deloadUntil n)
         else IsometricExercise_docs b (docs_deloadUntil n))"

definition getIntensityLabel :: "rat \<Rightarrow> string" where
  "getIntensityLabel pct =
     (let rounded = Math_round (pct * 100)
      in if rounded = 40 then ''Easy''
         else if rounded = 50 then ''Normal''
         else if rounded = 60 then ''Hard''
         else if rounded = 30 then ''Deload''
         else ''Auto'')"

definition buildIntensityExplanation :: "rat \<Rightarrow> bool \<Rightarrow> string list" where
  "buildIntensityExplanation pct deloadActive =
     (if deloadActive then [''Deload active: easy sets for recovery.'']
      else [''GTG intensity: '' @ getIntensityLabel pct @ ''.''])"

text \<open>\<open>deloadUntil ? now < deloadUntil : false\<close>: the timestamp 0 is falsy.\<close>

definition getEffectiveIntensity :: "docs_exercise \<Rightarrow> int \<Rightarrow> rat \<times> bool" where
  "getEffectiveIntensity ex t =
     (let baselineIntensity =
            normalizeIntensity
              (Some (nullish (intensityPct (baseline_of ex)) GTG_INTENSITY_normal));
          deloadActive =
            (case deloadUntil ex of None \<Rightarrow> False | Some d \<Rightarrow> d \<noteq> 0 \<and> t < d)
      in (if deloadActive then INTENSITY_MIN else baselineIntensity, deloadActive))"

definition computeNextTarget_docs :: "docs_exercise \<Rightarrow> log_entry list \<Rightarrow> ctx \<Rightarrow> docs_target" where
  "computeNextTarget_docs this logs c =
     (let (pct, deloadActive) = getEffectiveIntensity this (now c);
          notes = buildIntensityExplanation pct deloadActive
      in case this of
           RepsExercise_docs b _ \<Rightarrow>
             \<lparr>docs_metricType = ''reps'',
              docs_reps = Some (max 1 (Math_round (nullish (maxCleanReps b) 1 * pct))),
              docs_loadKg = None, docs_durationSec = None,
              docs_explanation = notes, docs_deload = deloadActive\<rparr>
         | WeightedRepsExercise_docs b _ \<Rightarrow>
             (let ts = nullish (topSet b) \<lparr>ts_reps = Some 1, ts_loadKg = Some 0\<rparr>
              in \<lparr>docs_metricType = ''weightedReps'',
                  docs_reps = Some (max 1 (Math_round (nullish (ts_reps ts) 1 * pct))),
                  docs_loadKg = Some (nullish (ts_loadKg ts) 0), docs_durationSec = None,
                  docs_explanation = notes, docs_deload = deloadActive\<rparr>)
         | IsometricExercise_docs b _ \<Rightarrow>
             \<lparr>docs_metricType = ''isometric'',
              docs_reps = None, docs_loadKg = None,
              docs_durationSec = Some (max 5 (Math_round (nullish (maxCleanHoldSec b) 5 * pct))),
              docs_explanation = notes, docs_deload = deloadActive\<rparr>)"

section \<open>Reference sums for the weekly windows\<close>

text \<open>
  The weekly volumes as the specification words them: the sum of \<open>volumeFn\<close> over the
  logs whose timestamp lies in \<open>[now - 7d, now)\<close>, and over those in
  \<open>[now - 14d, now - 7d)\<close>.
\<close>

definition spec_volumeThisWeek :: "log_entry list \<Rightarrow> int \<Rightarrow> (log_entry \<Rightarrow> rat) \<Rightarrow> rat" where
  "spec_volumeThisWeek logs t volumeFn =
     sum_list (map volumeFn
       (filter (\<lambda>log. t - 7 * DAY_MS \<le> timestamp log \<and> timestamp log < t) logs))"

definition spec_volumePrevWeek :: "log_entry list \<Rightarrow> int \<Rightarrow> (log_entry \<Rightarrow> rat) \<Rightarrow> rat" where
  "spec_volumePrevWeek logs t volumeFn =
     sum_list (map volumeFn
       (filter (\<lambda>log. t - 14 * DAY_MS \<le> timestamp log \<and> timestamp log < t - 7 * DAY_MS) logs))"

section \<open>Starter data\<close>

text \<open>
  The starter exercises that \<open>ensureDefaults\<close> stores ("Push-ups", "Bench Press",
  "Wall Sit"), hydrated, and a context at day 20 with the default profile.
\<close>

definition pushUps :: exercise where
  "pushUps = RepsExercise None (Some \<lparr>range_min = 6, range_max = 15\<rparr>) 1 1"

definition benchPress :: exercise where
  "benchPress = WeightedRepsExercise None (Some \<lparr>range_min = 6, range_max = 10\<rparr>) 1 (5 / 2)"

definition wallSit :: exercise where
  "wallSit = IsometricExercise None (Some \<lparr>range_min = 20, range_max = 60\<rparr>) 5"

definition day20 :: ctx where
  "day20 = \<lparr>now = 20 * DAY_MS, profile = defaultProgression\<rparr>"

section \<open>Evaluation and basic facts\<close>

lemmas eval_defs =
  computeNextTarget_def RepsExercise_computeNextTarget_def
  WeightedRepsExercise_computeNextTarget_def IsometricExercise_computeNextTarget_def
  getRecentCompleteLogs_def recentCompleteLogs_def painFlags_def slice0_def
  sort_newest_first_def DAY_MS_def nullish_def nullish_or_def first_log_def bind_err_def
  prop_min_def prop_max_def medianRir_def median_def getWeeklyVolume_def capHit_def
  volumeIncreasePct_def defaultProgression_def clamp_def Math_round_def Let_def
  pushUps_def benchPress_def wallSit_def day20_def

lemma no_deload_no_note:
  "\<not> g_deload (getRecentCompleteLogs logs c pp) \<Longrightarrow>
     g_explanation (getRecentCompleteLogs logs c pp) = []
     \<and> \<not> g_frozen (getRecentCompleteLogs logs c pp)"
  by (simp add: getRecentCompleteLogs_def Let_def split: if_splits)

lemma foldl_add_sum_list:
  "foldl (\<lambda>acc x. acc + f x) a xs = (a::rat) + sum_list (map f xs)"
  by (induction xs arbitrary: a) (simp_all add: add.assoc)

lemma guardrails_profile:
  "g_profile (getRecentCompleteLogs logs c pp) = nullish pp (profile c)"
  by (simp add: getRecentCompleteLogs_def Let_def)

lemma pain_high_deload:
  assumes "l \<in> set (painFlags logs (nullish pp (profile c)))"
    and "pain0to10 l = Some q" and "q \<ge> painReduce (nullish pp (profile c))"
  shows "g_deload (getRecentCompleteLogs logs c pp)"
proof -
  have "list_ex (\<lambda>log. nullish (pain0to10 log) 0 \<ge> painReduce (nullish pp (profile c)))
          (painFlags logs (nullish pp (profile c)))"
    unfolding list_ex_iff using assms by (intro bexI [of _ l]) (simp_all add: nullish_def)
  then show ?thesis
    by (simp add: getRecentCompleteLogs_def Let_def)
qed

lemma deload_notes:
  "g_deload (getRecentCompleteLogs logs c pp) \<Longrightarrow>
     g_explanation (getRecentCompleteLogs logs c pp) = [''Pain guardrails triggered a deload.'']
     \<and> g_frozen (getRecentCompleteLogs logs c pp)"
  by (simp add: getRecentCompleteLogs_def Let_def split: if_splits)

lemma hd_sort_key_least:
  assumes x: "x \<in> set xs" and least: "\<forall>y \<in> set xs. y \<noteq> x \<longrightarrow> f x < f y"
  shows "hd (sort_key f xs) = x"
proof (rule ccontr)
  let ?ys = "sort_key f xs"
  assume ne: "hd ?ys \<noteq> x"
  have nonempty: "?ys \<noteq> []" using x by (metis empty_iff list.set(1) set_sort)
  then have mem: "hd ?ys \<in> set xs" by (metis hd_in_set set_sort)
  with ne least have lt: "f x < f (hd ?ys)" by blast
  have "x \<in> set ?ys" using x by simp
  moreover have "sorted (map f ?ys)" by simp
  ultimately have "f (hd ?ys) \<le> f x"
    using nonempty by (cases ?ys) auto
  with lt show False by simp
qed

lemma newest_log_flagged:
  assumes mem: "l \<in> set logs" and pain: "pain0to10 l \<noteq> None"
    and newest: "\<forall>l' \<in> set logs. l' \<noteq> l \<longrightarrow> timestamp l' < timestamp l"
    and n: "freezeDaysIfPain p \<ge> 1"
  shows "l \<in> set (painFlags logs p)"
proof -
  let ?xs = "filter (\<lambda>log. pain0to10 log \<noteq> None) logs"
  have "l \<in> set ?xs" using mem pain by simp
  moreover have "\<forall>y \<in> set ?xs. y \<noteq> l \<longrightarrow> - timestamp l < - timestamp y"
    using newest by simp
  ultimately have hd: "hd (sort_newest_first ?xs) = l"
    unfolding sort_newest_first_def by (rule hd_sort_key_least)
  have ne: "sort_newest_first ?xs \<noteq> []"
    using \<open>l \<in> set ?xs\<close> unfolding sort_newest_first_def
    by (metis empty_iff list.set(1) set_sort)
  have "hd (sort_newest_first ?xs) \<in> set (take (nat (freezeDaysIfPain p)) (sort_newest_first ?xs))"
    using ne n by (cases "sort_newest_first ?xs"; cases "nat (freezeDaysIfPain p)") auto
  then show ?thesis
    using hd n by (simp add: painFlags_def slice0_def)
qed

lemma getRecentCompleteLogs_store_pure:
  assumes a: "a < length s"
  shows "\<exists>r xs. getRecentCompleteLogs_store a c pp s =
            ((r, g_profile (getRecentCompleteLogs (s ! a) c pp),
              g_explanation (getRecentCompleteLogs (s ! a) c pp),
              g_frozen (getRecentCompleteLogs (s ! a) c pp),
              g_deload (getRecentCompleteLogs (s ! a) c pp)), s @ xs)
          \<and> (s @ xs) ! r = recentLogs (getRecentCompleteLogs (s ! a) c pp)"
  using a
  by (simp add: getRecentCompleteLogs_store_def getRecentCompleteLogs_def recentCompleteLogs_def
      painFlags_def arr_filter_def arr_sort_newest_first_def arr_slice0_def
      nth_append Let_def)

lemma getWeeklyVolume_store_pure:
  assumes a: "a < length s"
  shows "\<exists>xs. getWeeklyVolume_store a t f s = (getWeeklyVolume (s ! a) t f, s @ xs)"
  using a
  by (simp add: getWeeklyVolume_store_def getWeeklyVolume_def arr_filter_def
      nth_append Let_def)

lemma RepsExercise_store_pure:
  assumes a: "a < length s"
  shows "\<exists>xs. RepsExercise_computeNextTarget_store this a c s
            = (RepsExercise_computeNextTarget this (s ! a) c, s @ xs)"
proof -
  let ?g = "getRecentCompleteLogs (s ! a) c (progressionProfile this)"
  obtain r xs where g: "getRecentCompleteLogs_store a c (progressionProfile this) s =
            ((r, g_profile ?g, g_explanation ?g, g_frozen ?g, g_deload ?g), s @ xs)"
     and r: "(s @ xs) ! r = recentLogs ?g"
    using getRecentCompleteLogs_store_pure [OF a] by blast
  have a1: "a < length (s @ xs)" and same: "(s @ xs) ! a = s ! a"
    using a by (simp_all add: nth_append)
  obtain ys where v: "getWeeklyVolume_store a (now c) (\<lambda>log. nullish (reps log) 0) (s @ xs)
        = (getWeeklyVolume (s ! a) (now c) (\<lambda>log. nullish (reps log) 0), (s @ xs) @ ys)"
    using getWeeklyVolume_store_pure [OF a1] same by metis
  have "RepsExercise_computeNextTarget_store this a c s
          = (RepsExercise_computeNextTarget this (s ! a) c, s @ xs)
      \<or> RepsExercise_computeNextTarget_store this a c s
          = (RepsExercise_computeNextTarget this (s ! a) c, s @ (xs @ ys))"
    unfolding RepsExercise_computeNextTarget_store_def RepsExercise_computeNextTarget_def
    by (simp add: g r v Let_def bind_err_def split: sum.splits)
  then show ?thesis by blast
qed

lemma docs_missing_range_default:
  "computeNextTarget_docs
     (hydrateExercise_docs
        \<lparr>docs_type = ''reps'', docs_baseline = None, docs_deloadUntil = None,
         docs_repRange = None, docs_loadIncrementKg = None, docs_durationRangeSec = None\<rparr>)
     logs c
   = \<lparr>docs_metricType = ''reps'', docs_reps = Some 5, docs_loadKg = None,
      docs_durationSec = None, docs_explanation = [''GTG intensity: Normal.''],
      docs_deload = False\<rparr>"
  by (simp add: computeNextTarget_docs_def hydrateExercise_docs_def normalizeExerciseRecord_def
      getEffectiveIntensity_def buildIntensityExplanation_def getIntensityLabel_def
      normalizeIntensity_def emptyBaseline_def GTG_INTENSITY_normal_def INTENSITY_MIN_def
      INTENSITY_MAX_def nullish_def clamp_def Math_round_def Let_def floor_eq_iff)

text \<open>
  The volume cap in the two other kinds (no deload): the target goes back to the last
  logged values.  The last lemma is the isometric scenario of the specification.
\<close>

lemma weighted_volume_cap:
  assumes ex: "this = WeightedRepsExercise pp (Some rr) ri li"
    and g: "g = getRecentCompleteLogs logs c pp"
    and nd: "\<not> g_deload g"
    and v: "v = getWeeklyVolume logs (now c)
                  (\<lambda>log. nullish (reps log) 0 * nullish (loadKg log) 0)"
    and cap: "capHit v (g_profile g)"
  shows "\<exists>t pre. computeNextTarget this logs c = Inr t
     \<and> targetReps t = Some (nullish (Option.bind (first_log (recentLogs g)) reps) (range_min rr))
     \<and> targetLoadKg t = Some (nullish (Option.bind (first_log (recentLogs g)) loadKg) (li * 4))
     \<and> explanation t = pre @ [''Volume cap hit; holding steady.'']"
  using nd cap
  unfolding ex g v computeNextTarget_def WeightedRepsExercise_computeNextTarget_def
  by (simp add: Let_def bind_err_def prop_min_def prop_max_def
      nullish_or_def nullish_def split: option.splits)

lemma isometric_volume_cap:
  assumes ex: "this = IsometricExercise pp (Some rr) ti"
    and g: "g = getRecentCompleteLogs logs c pp"
    and nd: "\<not> g_deload g"
    and v: "v = getWeeklyVolume logs (now c) (\<lambda>log. nullish (durationSec log) 0)"
    and cap: "capHit v (g_profile g)"
  shows "\<exists>t pre. computeNextTarget this logs c = Inr t
     \<and> targetDurationSec t =
           Some (nullish (Option.bind (first_log (recentLogs g)) durationSec) (range_min rr))
     \<and> explanation t = pre @ [''Volume cap hit; holding steady.'']"
  using nd cap
  unfolding ex g v computeNextTarget_def IsometricExercise_computeNextTarget_def
  by (simp add: Let_def bind_err_def prop_min_def prop_max_def
      nullish_or_def nullish_def split: option.splits)

lemma isometric_scenario:
  "computeNextTarget wallSit
     [\<lparr>timestamp = 19 * DAY_MS, status = ''complete'', reps = None, loadKg = None,
       durationSec = Some 30, rir = Some 6, pain0to10 = None\<rparr>]
     day20
   = Inr \<lparr>metricType = ''isometric'', targetReps = None, targetLoadKg = None,
          targetDurationSec = Some 35, explanation = [''Effort was easy; nudging time up.''],
          frozen = False, deload = False\<rparr>"
  by (simp add: eval_defs)

text \<open>With both ranges present no read throws, whatever the kind, history and context.\<close>

lemma ranged_record_returns:
  assumes "rec_repRange r = Some rr" and "rec_durationRangeSec r = Some dr"
  shows "\<exists>t. computeNextTarget (hydrateExercise r) logs c = Inr t"
proof -
  have reps: "\<exists>t. RepsExercise_computeNextTarget (RepsExercise pp (Some rr) ri mf) logs c = Inr t"
    for pp ri mf
    by (simp add: RepsExercise_computeNextTarget_def Let_def bind_err_def prop_min_def
        prop_max_def nullish_or_def split: option.splits)
  have iso: "\<exists>t. IsometricExercise_computeNextTarget (IsometricExercise pp (Some dr) ti) logs c = Inr t"
    for pp ti
    by (simp add: IsometricExercise_computeNextTarget_def Let_def bind_err_def prop_min_def
        prop_max_def nullish_or_def split: option.splits)
  have wt: "\<exists>t. WeightedRepsExercise_computeNextTarget (WeightedRepsExercise pp (Some rr) ri li) logs c = Inr t"
    for pp ri li
    by (simp add: WeightedRepsExercise_computeNextTarget_def Let_def bind_err_def prop_min_def
        prop_max_def nullish_or_def split: option.splits)
  show ?thesis
    using assms reps iso wt
    by (simp add: hydrateExercise_def computeNextTarget_def)
qed

section \<open>The guardrail evaluator with no pain window\<close>

text \<open>
  C8.  When the resolved profile has \<open>freezeDaysIfPain = 0\<close>, the guardrail evaluator
  reports \<open>deload\<close> and \<open>frozen\<close> for every log history and every \<open>now\<close>: the slice of
  pain-flagged logs is empty, its length equals \<open>freezeDaysIfPain\<close>, and the streak
  condition holds of the empty list.
\<close>

theorem freeze_zero_always_deload:
  assumes "freezeDaysIfPain (nullish overrideProfile (profile c)) = 0"
  shows "g_deload (getRecentCompleteLogs logs c overrideProfile) = True
       \<and> g_frozen (getRecentCompleteLogs logs c overrideProfile) = True
       \<and> g_explanation (getRecentCompleteLogs logs c overrideProfile)
           = [''Pain guardrails triggered a deload.'']"
  using assms by (simp add: getRecentCompleteLogs_def painFlags_def slice0_def Let_def)

theorem freeze_zero_always_deload_witness:
  "freezeDaysIfPain (nullish None
       (profile \<lparr>now = 0, profile = defaultProgression\<lparr>freezeDaysIfPain := 0\<rparr>\<rparr>)) = 0
   \<and> g_deload (getRecentCompleteLogs
        [\<lparr>timestamp = 0, status = ''complete'', reps = Some 8, loadKg = None,
          durationSec = None, rir = Some 4, pain0to10 = Some 0\<rparr>]
        \<lparr>now = 0, profile = defaultProgression\<lparr>freezeDaysIfPain := 0\<rparr>\<rparr> None) = True"
  using freeze_zero_always_deload
    [of None "\<lparr>now = 0, profile = defaultProgression\<lparr>freezeDaysIfPain := 0\<rparr>\<rparr>"
        "[\<lparr>timestamp = 0, status = ''complete'', reps = Some 8, loadKg = None,
          durationSec = None, rir = Some 4, pain0to10 = Some 0\<rparr>]"]
  by (simp add: nullish_def defaultProgression_def)

section \<open>Weighted reps: the high-effort branch\<close>

text \<open>
  C1, as the specification states it: a median RIR below \<open>targetRirMax\<close> lowers the
  reps.  It fails inside the target band.  With the default profile (band 3 to 5), one
  complete bench-press set of 8 reps at 20 kg with RIR 4 has median RIR 4, below
  \<open>targetRirMax = 5\<close>, no deload and no volume cap; the next target keeps 8 reps rather
  than \<open>max 6 (8 - 1) = 7\<close>.
\<close>

theorem weighted_band_counterexample:
  "medianRir (recentLogs (getRecentCompleteLogs
       [\<lparr>timestamp = 19 * DAY_MS, status = ''complete'', reps = Some 8, loadKg = Some 20,
         durationSec = None, rir = Some 4, pain0to10 = None\<rparr>]
       day20 None)) = Some 4
   \<and> 4 < targetRirMax defaultProgression
   \<and> \<not> g_deload (getRecentCompleteLogs
       [\<lparr>timestamp = 19 * DAY_MS, status = ''complete'', reps = Some 8, loadKg = Some 20,
         durationSec = None, rir = Some 4, pain0to10 = None\<rparr>]
       day20 None)
   \<and> computeNextTarget benchPress
       [\<lparr>timestamp = 19 * DAY_MS, status = ''complete'', reps = Some 8, loadKg = Some 20,
         durationSec = None, rir = Some 4, pain0to10 = None\<rparr>]
       day20
     = Inr \<lparr>metricType = ''weightedReps'', targetReps = Some 8, targetLoadKg = Some 20,
            targetDurationSec = None, explanation = [], frozen = False, deload = False\<rparr>
   \<and> (8::rat) \<noteq> max 6 (8 - 1)"
  by (simp add: eval_defs)

text \<open>
  C1, amended: the threshold of the branch is \<open>targetRirMin\<close>.  For a weighted exercise
  with a rep range, not frozen, not in deload, with a median RIR below \<open>targetRirMin\<close>
  (and \<open>targetRirMin \<le> targetRirMax\<close>), the load of the next target is the last load,
  and the reps are \<open>max repRange.min (lastReps - repIncrement)\<close>, unless the weekly
  volume cap is hit, which holds the reps at \<open>lastReps\<close>.
\<close>

theorem weighted_high_effort:
  assumes ex: "this = WeightedRepsExercise pp (Some rr) ri li"
    and g: "g = getRecentCompleteLogs logs c pp"
    and nd: "\<not> g_frozen g" "\<not> g_deload g"
    and m: "medianRir (recentLogs g) = Some m"
    and inv: "targetRirMin (g_profile g) \<le> targetRirMax (g_profile g)"
    and lt: "m < targetRirMin (g_profile g)"
    and lr: "lastReps = nullish (Option.bind (first_log (recentLogs g)) reps) (range_min rr)"
    and ll: "lastLoad = nullish (Option.bind (first_log (recentLogs g)) loadKg) (li * 4)"
    and v: "v = getWeeklyVolume logs (now c)
                  (\<lambda>log. nullish (reps log) 0 * nullish (loadKg log) 0)"
  shows "computeNextTarget this logs c =
     Inr \<lparr>metricType = ''weightedReps'',
          targetReps = Some (if capHit v (g_profile g) then lastReps
                             else max (range_min rr) (lastReps - ri)),
          targetLoadKg = Some lastLoad,
          targetDurationSec = None,
          explanation = ''Effort was high; reducing reps.''
             # (if capHit v (g_profile g) then [''Volume cap hit; holding steady.''] else []),
          frozen = False, deload = False\<rparr>"
proof -
  have ne: "g_explanation g = []"
    using nd(2) no_deload_no_note unfolding g by blast
  have nm: "\<not> m > targetRirMax (g_profile g)"
    using inv lt by simp
  show ?thesis
    using nd m nm lt ne
    unfolding ex g v lr ll computeNextTarget_def WeightedRepsExercise_computeNextTarget_def
    by (simp add: Let_def bind_err_def prop_min_def prop_max_def
        nullish_or_def nullish_def split: option.splits)
qed

theorem weighted_high_effort_witness:
  "computeNextTarget benchPress
       [\<lparr>timestamp = 19 * DAY_MS, status = ''complete'', reps = Some 8, loadKg = Some 20,
         durationSec = None, rir = Some 2, pain0to10 = None\<rparr>]
       day20
     = Inr \<lparr>metricType = ''weightedReps'', targetReps = Some 7, targetLoadKg = Some 20,
            targetDurationSec = None, explanation = [''Effort was high; reducing reps.''],
            frozen = False, deload = False\<rparr>"
proof -
  let ?logs = "[\<lparr>timestamp = 19 * DAY_MS, status = ''complete'', reps = Some 8,
                  loadKg = Some 20, durationSec = None, rir = Some 2, pain0to10 = None\<rparr>]"
  let ?g = "getRecentCompleteLogs ?logs day20 None"
  let ?v = "getWeeklyVolume ?logs (now day20)
              (\<lambda>log. nullish (reps log) 0 * nullish (loadKg log) 0)"
  have g: "?g = \<lparr>recentLogs = ?logs, g_profile = defaultProgression, g_explanation = [],
                 g_frozen = False, g_deload = False\<rparr>"
    by (simp add: eval_defs)
  have v: "?v = \<lparr>volumeThisWeek = 160, volumePrevWeek = 0\<rparr>"
    by (simp add: eval_defs)
  have h1: "benchPress = WeightedRepsExercise None (Some \<lparr>range_min = 6, range_max = 10\<rparr>) 1 (5 / 2)"
    by (simp add: benchPress_def)
  have h2: "\<not> g_frozen ?g" "\<not> g_deload ?g"
    by (simp_all add: g)
  have h3: "medianRir (recentLogs ?g) = Some 2"
    by (simp add: g medianRir_def median_def)
  have h4: "targetRirMin (g_profile ?g) \<le> targetRirMax (g_profile ?g)"
    by (simp add: g defaultProgression_def)
  have h5: "2 < targetRirMin (g_profile ?g)"
    by (simp add: g defaultProgression_def)
  have h6: "(8::rat) = nullish (Option.bind (first_log (recentLogs ?g)) reps)
                         (range_min \<lparr>range_min = 6, range_max = 10\<rparr>)"
    by (simp add: g nullish_def first_log_def)
  have h7: "(20::rat) = nullish (Option.bind (first_log (recentLogs ?g)) loadKg) (5 / 2 * 4)"
    by (simp add: g nullish_def first_log_def)
  have nc: "\<not> capHit ?v (g_profile ?g)"
    by (simp add: v capHit_def)
  show ?thesis
    using weighted_high_effort [OF h1 refl h2 h3 h4 h5 h6 h7 refl] nc
    by simp
qed

section \<open>Weekly volume windows\<close>

text \<open>
  C3, as the specification states it: \<open>volumeThisWeek\<close> sums the logs of
  \<open>[now - 7d, now)\<close>.  The code tests only \<open>timestamp \<ge> now - 7d\<close>: a log stamped
  exactly at \<open>now\<close> with 5 reps is counted (volume 5), while the half-open window is
  empty (sum 0).
\<close>

theorem weekly_volume_future_counterexample:
  "volumeThisWeek (getWeeklyVolume
       [\<lparr>timestamp = 20 * DAY_MS, status = ''complete'', reps = Some 5, loadKg = None,
         durationSec = None, rir = None, pain0to10 = None\<rparr>]
       (20 * DAY_MS) (\<lambda>log. nullish (reps log) 0)) = 5
   \<and> spec_volumeThisWeek
       [\<lparr>timestamp = 20 * DAY_MS, status = ''complete'', reps = Some 5, loadKg = None,
         durationSec = None, rir = None, pain0to10 = None\<rparr>]
       (20 * DAY_MS) (\<lambda>log. nullish (reps log) 0) = 0"
  by (simp add: getWeeklyVolume_def spec_volumeThisWeek_def DAY_MS_def nullish_def)

text \<open>
  C3, amended: for every log list, \<open>now\<close> and volume function, \<open>volumeThisWeek\<close> is the
  sum of \<open>volumeFn\<close> over exactly the logs with \<open>timestamp \<ge> now - 7d\<close> (no upper
  bound), and \<open>volumePrevWeek\<close> is the sum over exactly the logs of the half-open
  interval \<open>[now - 14d, now - 7d)\<close>.
\<close>

theorem weekly_volume_windows:
  "volumeThisWeek (getWeeklyVolume logs t volumeFn)
     = sum_list (map volumeFn (filter (\<lambda>log. t - 7 * DAY_MS \<le> timestamp log) logs))
   \<and> volumePrevWeek (getWeeklyVolume logs t volumeFn) = spec_volumePrevWeek logs t volumeFn"
  by (simp add: getWeeklyVolume_def spec_volumePrevWeek_def foldl_add_sum_list Let_def)

section \<open>Reps: the volume cap\<close>

text \<open>
  C4.  For a rep-based exercise with a rep range: whenever \<open>volumePrevWeek > 0\<close> and the
  percentage increase of the weekly volume (over the full history) exceeds
  \<open>maxWeeklyVolumeIncreasePct\<close>, the note about the cap is appended after the notes of
  the earlier steps, and the reps of step 4 are replaced by \<open>lastTarget\<close>, whatever the
  median RIR proposed.  Only the deload override of the last step, which the
  specification places above the cap, changes the value again.
\<close>

theorem reps_volume_cap:
  assumes ex: "this = RepsExercise pp (Some rr) ri mf"
    and g: "g = getRecentCompleteLogs logs c pp"
    and v: "v = getWeeklyVolume logs (now c) (\<lambda>log. nullish (reps log) 0)"
    and prev: "volumePrevWeek v > 0"
    and pct: "(volumeThisWeek v - volumePrevWeek v) / volumePrevWeek v * 100
                > maxWeeklyVolumeIncreasePct (g_profile g)"
    and lt: "lastTarget = nullish (Option.bind (first_log (recentLogs g)) reps) (range_min rr)"
  shows "\<exists>t pre. computeNextTarget this logs c = Inr t
     \<and> targetReps t =
          Some (if g_deload g
                then max mf (Math_round (lastTarget * deloadVolumeFactor (g_profile g)))
                else lastTarget)
     \<and> explanation t =
          pre @ [''Volume cap hit; holding steady.'']
              @ (if g_deload g then [''Deload active; reducing volume.''] else [])"
proof -
  have cap: "capHit v (g_profile g)"
    using prev pct by (simp add: capHit_def volumeIncreasePct_def)
  show ?thesis
    using cap
    unfolding ex g v lt computeNextTarget_def RepsExercise_computeNextTarget_def
    by (simp add: Let_def bind_err_def prop_min_def prop_max_def
        nullish_or_def nullish_def split: option.splits)
qed

text \<open>
  A history with 20 reps in the previous week and 23 in this week (15 percent more, cap
  10 percent), last set 12 reps with RIR 6: the effort step proposes 13, the cap holds 12.
\<close>

theorem reps_volume_cap_witness:
  "\<exists>t pre. computeNextTarget pushUps
       [\<lparr>timestamp = 9 * DAY_MS, status = ''complete'', reps = Some 10, loadKg = None,
         durationSec = None, rir = None, pain0to10 = None\<rparr>,
        \<lparr>timestamp = 10 * DAY_MS, status = ''complete'', reps = Some 10, loadKg = None,
         durationSec = None, rir = None, pain0to10 = None\<rparr>,
        \<lparr>timestamp = 18 * DAY_MS, status = ''complete'', reps = Some 11, loadKg = None,
         durationSec = None, rir = Some 6, pain0to10 = None\<rparr>,
        \<lparr>timestamp = 19 * DAY_MS, status = ''complete'', reps = Some 12, loadKg = None,
         durationSec = None, rir = Some 6, pain0to10 = None\<rparr>]
       day20 = Inr t
     \<and> targetReps t = Some 12
     \<and> explanation t = pre @ [''Volume cap hit; holding steady.'']"
proof -
  let ?logs = "[\<lparr>timestamp = 9 * DAY_MS, status = ''complete'', reps = Some 10, loadKg = None,
         durationSec = None, rir = None, pain0to10 = None\<rparr>,
        \<lparr>timestamp = 10 * DAY_MS, status = ''complete'', reps = Some 10, loadKg = None,
         durationSec = None, rir = None, pain0to10 = None\<rparr>,
        \<lparr>timestamp = 18 * DAY_MS, status = ''complete'', reps = Some 11, loadKg = None,
         durationSec = None, rir = Some 6, pain0to10 = None\<rparr>,
        \<lparr>timestamp = 19 * DAY_MS, status = ''complete'', reps = Some 12, loadKg = None,
         durationSec = None, rir = Some 6, pain0to10 = None\<rparr>]"
  let ?g = "getRecentCompleteLogs ?logs day20 None"
  let ?v = "getWeeklyVolume ?logs (now day20) (\<lambda>log. nullish (reps log) 0)"
  have v: "?v = \<lparr>volumeThisWeek = 23, volumePrevWeek = 20\<rparr>"
    by (simp add: eval_defs)
  have p: "g_profile ?g = defaultProgression" and nd: "\<not> g_deload ?g"
    by (simp_all add: eval_defs)
  have first: "first_log (recentLogs ?g)
      = Some \<lparr>timestamp = 19 * DAY_MS, status = ''complete'', reps = Some 12, loadKg = None,
               durationSec = None, rir = Some 6, pain0to10 = None\<rparr>"
    by (simp add: eval_defs)
  have h1: "pushUps = RepsExercise None (Some \<lparr>range_min = 6, range_max = 15\<rparr>) 1 1"
    by (simp add: pushUps_def)
  have h2: "volumePrevWeek ?v > 0"
    by (simp add: v)
  have h3: "(volumeThisWeek ?v - volumePrevWeek ?v) / volumePrevWeek ?v * 100
              > maxWeeklyVolumeIncreasePct (g_profile ?g)"
    by (simp add: v p defaultProgression_def)
  have h4: "(12::rat) = nullish (Option.bind (first_log (recentLogs ?g)) reps)
                          (range_min \<lparr>range_min = 6, range_max = 15\<rparr>)"
    by (simp add: first nullish_def)
  from reps_volume_cap [OF h1 refl refl h2 h3 h4] nd show ?thesis
    by simp
qed

section \<open>Weighted reps: topping out the rep range\<close>

text \<open>
  C6, as the specification states it, with nothing said about the later steps.  Last
  week 5 reps at 20 kg, this week 10 reps at 20 kg, both with RIR 6: the current reps are
  at \<open>repRange.max = 10\<close> and the median RIR 6 is above \<open>targetRirMax = 5\<close>, but the
  weekly volume doubled, so the cap holds the target at 10 reps and 20 kg instead of
  6 reps and 22.5 kg.
\<close>

theorem weighted_top_out_counterexample:
  "medianRir (recentLogs (getRecentCompleteLogs
       [\<lparr>timestamp = 10 * DAY_MS, status = ''complete'', reps = Some 5, loadKg = Some 20,
         durationSec = None, rir = Some 6, pain0to10 = None\<rparr>,
        \<lparr>timestamp = 19 * DAY_MS, status = ''complete'', reps = Some 10, loadKg = Some 20,
         durationSec = None, rir = Some 6, pain0to10 = None\<rparr>]
       day20 None)) = Some 6
   \<and> 6 > targetRirMax defaultProgression
   \<and> Option.bind (first_log (recentLogs (getRecentCompleteLogs
       [\<lparr>timestamp = 10 * DAY_MS, status = ''complete'', reps = Some 5, loadKg = Some 20,
         durationSec = None, rir = Some 6, pain0to10 = None\<rparr>,
        \<lparr>timestamp = 19 * DAY_MS, status = ''complete'', reps = Some 10, loadKg = Some 20,
         durationSec = None, rir = Some 6, pain0to10 = None\<rparr>]
       day20 None))) reps = Some 10
   \<and> computeNextTarget benchPress
       [\<lparr>timestamp = 10 * DAY_MS, status = ''complete'', reps = Some 5, loadKg = Some 20,
         durationSec = None, rir = Some 6, pain0to10 = None\<rparr>,
        \<lparr>timestamp = 19 * DAY_MS, status = ''complete'', reps = Some 10, loadKg = Some 20,
         durationSec = None, rir = Some 6, pain0to10 = None\<rparr>]
       day20
     = Inr \<lparr>metricType = ''weightedReps'', targetReps = Some 10, targetLoadKg = Some 20,
            targetDurationSec = None,
            explanation = [''Hit top reps; adding load and resetting reps.'',
                           ''Volume cap hit; holding steady.''],
            frozen = False, deload = False\<rparr>
   \<and> (10::rat) \<noteq> 6 \<and> (20::rat) \<noteq> 20 + 5 / 2"
  by (simp add: eval_defs)

text \<open>
  C6, amended: for a weighted exercise with a rep range whose most recent working-set
  log has reps at (or above) \<open>repRange.max\<close>, with a median RIR above \<open>targetRirMax\<close>,
  no deload triggered and the weekly volume cap not hit, the next target has
  \<open>reps = repRange.min\<close> and \<open>loadKg = previousLoad + loadIncrementKg\<close>, where the
  previous load is the load of that log, or \<open>loadIncrementKg * 4\<close> if it has none.
\<close>

theorem weighted_top_out:
  assumes ex: "this = WeightedRepsExercise pp (Some rr) ri li"
    and g: "g = getRecentCompleteLogs logs c pp"
    and nd: "\<not> g_deload g"
    and m: "medianRir (recentLogs g) = Some m"
    and gt: "m > targetRirMax (g_profile g)"
    and last: "recentLogs g = l # rest" "reps l = Some lastReps"
    and top: "lastReps \<ge> range_max rr"
    and v: "v = getWeeklyVolume logs (now c)
                  (\<lambda>log. nullish (reps log) 0 * nullish (loadKg log) 0)"
    and nc: "\<not> capHit v (g_profile g)"
  shows "computeNextTarget this logs c =
     Inr \<lparr>metricType = ''weightedReps'',
          targetReps = Some (range_min rr),
          targetLoadKg = Some (nullish (loadKg l) (li * 4) + li),
          targetDurationSec = None,
          explanation = [''Hit top reps; adding load and resetting reps.''],
          frozen = False, deload = False\<rparr>"
proof -
  have ne: "g_explanation g = []" "\<not> g_frozen g"
    using nd no_deload_no_note unfolding g by blast+
  show ?thesis
    using nd m gt last top nc ne
    unfolding ex g v computeNextTarget_def WeightedRepsExercise_computeNextTarget_def
    by (simp add: Let_def bind_err_def prop_min_def prop_max_def first_log_def
        nullish_or_def nullish_def split: option.splits)
qed

theorem weighted_top_out_witness:
  "computeNextTarget benchPress
       [\<lparr>timestamp = 19 * DAY_MS, status = ''complete'', reps = Some 10, loadKg = Some 20,
         durationSec = None, rir = Some 6, pain0to10 = None\<rparr>]
       day20
     = Inr \<lparr>metricType = ''weightedReps'', targetReps = Some 6, targetLoadKg = Some (45 / 2),
            targetDurationSec = None,
            explanation = [''Hit top reps; adding load and resetting reps.''],
            frozen = False, deload = False\<rparr>"
proof -
  let ?l = "\<lparr>timestamp = 19 * DAY_MS, status = ''complete'', reps = Some 10,
              loadKg = Some 20, durationSec = None, rir = Some 6, pain0to10 = None\<rparr>"
  let ?g = "getRecentCompleteLogs [?l] day20 None"
  let ?v = "getWeeklyVolume [?l] (now day20)
              (\<lambda>log. nullish (reps log) 0 * nullish (loadKg log) 0)"
  have g: "?g = \<lparr>recentLogs = [?l], g_profile = defaultProgression, g_explanation = [],
                 g_frozen = False, g_deload = False\<rparr>"
    by (simp add: eval_defs)
  have v: "?v = \<lparr>volumeThisWeek = 200, volumePrevWeek = 0\<rparr>"
    by (simp add: eval_defs)
  have h1: "benchPress = WeightedRepsExercise None (Some \<lparr>range_min = 6, range_max = 10\<rparr>) 1 (5 / 2)"
    by (simp add: benchPress_def)
  have h2: "\<not> g_deload ?g"
    by (simp add: g)
  have h3: "medianRir (recentLogs ?g) = Some 6"
    by (simp add: g medianRir_def median_def)
  have h4: "6 > targetRirMax (g_profile ?g)"
    by (simp add: g defaultProgression_def)
  have h5: "recentLogs ?g = ?l # []"
    by (simp add: g)
  have h6: "reps ?l = Some 10"
    by simp
  have h7: "10 \<ge> range_max \<lparr>range_min = 6, range_max = 10\<rparr>"
    by simp
  have h8: "\<not> capHit ?v (g_profile ?g)"
    by (simp add: v capHit_def)
  show ?thesis
    using weighted_top_out [OF h1 refl h2 h3 h4 h5 h6 h7 refl h8]
    by (simp add: nullish_def)
qed

section \<open>Reps above the rep range\<close>

text \<open>
  C9.  The clamp to \<open>[minRepsFloor, repRange.max]\<close> comes before the volume cap and the
  deload, and both start again from the unclamped \<open>lastTarget\<close>.  For the push-ups
  (rep range 6 to 15): a last set of 20 reps with a triggered volume cap gives a target
  of 20 reps, and a last set of 40 reps with pain 7 gives a deload target of 26 reps;
  both are above \<open>repRange.max = 15\<close>.
\<close>

theorem reps_exceed_range_max:
  "computeNextTarget pushUps
       [\<lparr>timestamp = 10 * DAY_MS, status = ''complete'', reps = Some 10, loadKg = None,
         durationSec = None, rir = None, pain0to10 = None\<rparr>,
        \<lparr>timestamp = 19 * DAY_MS, status = ''complete'', reps = Some 20, loadKg = None,
         durationSec = None, rir = None, pain0to10 = None\<rparr>]
       day20
     = Inr \<lparr>metricType = ''reps'', targetReps = Some 20, targetLoadKg = None,
            targetDurationSec = None, explanation = [''Volume cap hit; holding steady.''],
            frozen = False, deload = False\<rparr>
   \<and> computeNextTarget pushUps
       [\<lparr>timestamp = 19 * DAY_MS, status = ''complete'', reps = Some 40, loadKg = None,
         durationSec = None, rir = None, pain0to10 = Some 7\<rparr>]
       day20
     = Inr \<lparr>metricType = ''reps'', targetReps = Some 26, targetLoadKg = None,
            targetDurationSec = None,
            explanation = [''Pain guardrails triggered a deload.'',
                           ''Deload active; reducing volume.''],
            frozen = True, deload = True\<rparr>
   \<and> repRange pushUps = Some \<lparr>range_min = 6, range_max = 15\<rparr>
   \<and> (20::rat) > 15 \<and> (26::rat) > 15"
  by (simp add: eval_defs floor_eq_iff)

section \<open>Weighted reps without history\<close>

text \<open>
  C10.  For a weighted exercise with a rep range, an empty working set (no complete log
  in the last 14 days), no deload and zero weekly volume, the next target is
  \<open>reps = repRange.min\<close> and \<open>loadKg = loadIncrementKg * 4\<close>, with no explanation.
\<close>

theorem weighted_no_history:
  assumes ex: "this = WeightedRepsExercise pp (Some rr) ri li"
    and g: "g = getRecentCompleteLogs logs c pp"
    and empty: "recentLogs g = []"
    and nd: "\<not> g_deload g"
    and v: "v = getWeeklyVolume logs (now c)
                  (\<lambda>log. nullish (reps log) 0 * nullish (loadKg log) 0)"
    and zero: "volumeThisWeek v = 0" "volumePrevWeek v = 0"
  shows "computeNextTarget this logs c =
     Inr \<lparr>metricType = ''weightedReps'',
          targetReps = Some (range_min rr),
          targetLoadKg = Some (li * 4),
          targetDurationSec = None,
          explanation = [],
          frozen = False, deload = False\<rparr>"
proof -
  have ne: "g_explanation g = []" "\<not> g_frozen g"
    using nd no_deload_no_note unfolding g by blast+
  have nc: "\<not> capHit v (g_profile g)"
    using zero by (simp add: capHit_def)
  show ?thesis
    using empty nd ne nc
    unfolding ex g v computeNextTarget_def WeightedRepsExercise_computeNextTarget_def
    by (simp add: Let_def bind_err_def prop_min_def prop_max_def medianRir_def first_log_def
        nullish_or_def nullish_def split: option.splits)
qed

text \<open>A single complete set 19 days ago is outside the working set and both weeks.\<close>

theorem weighted_no_history_witness:
  "computeNextTarget benchPress
       [\<lparr>timestamp = 1 * DAY_MS, status = ''complete'', reps = Some 8, loadKg = Some 50,
         durationSec = None, rir = Some 6, pain0to10 = None\<rparr>]
       day20
     = Inr \<lparr>metricType = ''weightedReps'', targetReps = Some 6, targetLoadKg = Some 10,
            targetDurationSec = None, explanation = [], frozen = False, deload = False\<rparr>"
proof -
  let ?logs = "[\<lparr>timestamp = 1 * DAY_MS, status = ''complete'', reps = Some 8,
                  loadKg = Some 50, durationSec = None, rir = Some 6, pain0to10 = None\<rparr>]"
  have h1: "benchPress = WeightedRepsExercise None (Some \<lparr>range_min = 6, range_max = 10\<rparr>) 1 (5 / 2)"
    by (simp add: benchPress_def)
  have h2: "recentLogs (getRecentCompleteLogs ?logs day20 None) = []"
    by (simp add: eval_defs)
  have h3: "\<not> g_deload (getRecentCompleteLogs ?logs day20 None)"
    by (simp add: eval_defs)
  have h4: "volumeThisWeek (getWeeklyVolume ?logs (now day20)
              (\<lambda>log. nullish (reps log) 0 * nullish (loadKg log) 0)) = 0"
    by (simp add: eval_defs)
  have h5: "volumePrevWeek (getWeeklyVolume ?logs (now day20)
              (\<lambda>log. nullish (reps log) 0 * nullish (loadKg log) 0)) = 0"
    by (simp add: eval_defs)
  show ?thesis
    using weighted_no_history [OF h1 refl h2 h3 refl h4 h5]
    by simp
qed

section \<open>Reps: deload after pain\<close>

text \<open>
  C5, as the specification states it.  The pain flags are the \<open>freezeDaysIfPain\<close> most
  recent logs with a pain value of any status, so newer logs can push the most recent
  complete log out of them.  Push-ups, default profile (\<open>painReduce = 5\<close>, two pain
  flags): the most recent complete log has 10 reps and pain 7, followed by two skipped
  logs with pain 0.  No deload is triggered and the target stays at 10 reps, not
  \<open>round (10 * 0.65) = 7\<close>.
\<close>

theorem reps_pain_deload_counterexample:
  "first_log (recentLogs (getRecentCompleteLogs
       [\<lparr>timestamp = 17 * DAY_MS, status = ''complete'', reps = Some 10, loadKg = None,
         durationSec = None, rir = None, pain0to10 = Some 7\<rparr>,
        \<lparr>timestamp = 18 * DAY_MS, status = ''skipped'', reps = None, loadKg = None,
         durationSec = None, rir = None, pain0to10 = Some 0\<rparr>,
        \<lparr>timestamp = 19 * DAY_MS, status = ''skipped'', reps = None, loadKg = None,
         durationSec = None, rir = None, pain0to10 = Some 0\<rparr>]
       day20 None))
     = Some \<lparr>timestamp = 17 * DAY_MS, status = ''complete'', reps = Some 10, loadKg = None,
         durationSec = None, rir = None, pain0to10 = Some 7\<rparr>
   \<and> painReduce (profile day20) = 5
   \<and> computeNextTarget pushUps
       [\<lparr>timestamp = 17 * DAY_MS, status = ''complete'', reps = Some 10, loadKg = None,
         durationSec = None, rir = None, pain0to10 = Some 7\<rparr>,
        \<lparr>timestamp = 18 * DAY_MS, status = ''skipped'', reps = None, loadKg = None,
         durationSec = None, rir = None, pain0to10 = Some 0\<rparr>,
        \<lparr>timestamp = 19 * DAY_MS, status = ''skipped'', reps = None, loadKg = None,
         durationSec = None, rir = None, pain0to10 = Some 0\<rparr>]
       day20
     = Inr \<lparr>metricType = ''reps'', targetReps = Some 10, targetLoadKg = None,
            targetDurationSec = None, explanation = [], frozen = False, deload = False\<rparr>
   \<and> max (minRepsFloor pushUps) (Math_round (10 * deloadVolumeFactor (profile day20))) = 7"
  by (simp add: eval_defs floor_eq_iff)

text \<open>
  C5, amended: for a rep-based exercise with a rep range, if the most recent complete log
  of the working set has reps recorded and a pain value at or above \<open>painReduce\<close> (7
  against 5 in the scenario), and that log is among the \<open>freezeDaysIfPain\<close> most recent
  pain-flagged logs, then \<open>computeNextTarget\<close> returns \<open>deload = true\<close> and the reps
  \<open>round (lastReps * deloadVolumeFactor)\<close>, floored at \<open>minRepsFloor\<close>.
\<close>

theorem reps_pain_deload:
  assumes ex: "this = RepsExercise pp (Some rr) ri mf"
    and g: "g = getRecentCompleteLogs logs c pp"
    and last: "recentLogs g = l # rest" "reps l = Some lastReps"
    and pain: "pain0to10 l = Some q" "q \<ge> painReduce (g_profile g)"
    and flagged: "l \<in> set (painFlags logs (g_profile g))"
    and v: "v = getWeeklyVolume logs (now c) (\<lambda>log. nullish (reps log) 0)"
  shows "computeNextTarget this logs c =
     Inr \<lparr>metricType = ''reps'',
          targetReps =
            Some (max mf (Math_round (lastReps * deloadVolumeFactor (g_profile g)))),
          targetLoadKg = None,
          targetDurationSec = None,
          explanation = ''Pain guardrails triggered a deload.''
             # (if capHit v (g_profile g) then [''Volume cap hit; holding steady.''] else [])
             @ [''Deload active; reducing volume.''],
          frozen = True, deload = True\<rparr>"
proof -
  have dl: "g_deload g"
    using pain flagged pain_high_deload unfolding g guardrails_profile by blast
  then have pn: "g_explanation g = [''Pain guardrails triggered a deload.'']" "g_frozen g"
    using deload_notes unfolding g by blast+
  show ?thesis
    using dl pn last
    unfolding ex g v computeNextTarget_def RepsExercise_computeNextTarget_def
    by (simp add: Let_def bind_err_def prop_min_def prop_max_def first_log_def
        nullish_or_def nullish_def split: option.splits)
qed

theorem reps_pain_deload_witness:
  "computeNextTarget pushUps
       [\<lparr>timestamp = 19 * DAY_MS, status = ''complete'', reps = Some 10, loadKg = None,
         durationSec = None, rir = None, pain0to10 = Some 7\<rparr>]
       day20
     = Inr \<lparr>metricType = ''reps'', targetReps = Some 7, targetLoadKg = None,
            targetDurationSec = None,
            explanation = [''Pain guardrails triggered a deload.'',
                           ''Deload active; reducing volume.''],
            frozen = True, deload = True\<rparr>"
proof -
  let ?l = "\<lparr>timestamp = 19 * DAY_MS, status = ''complete'', reps = Some 10, loadKg = None,
              durationSec = None, rir = None, pain0to10 = Some 7\<rparr>"
  let ?g = "getRecentCompleteLogs [?l] day20 None"
  let ?v = "getWeeklyVolume [?l] (now day20) (\<lambda>log. nullish (reps log) 0)"
  have p: "g_profile ?g = defaultProgression"
    by (simp add: guardrails_profile nullish_def day20_def)
  have h1: "pushUps = RepsExercise None (Some \<lparr>range_min = 6, range_max = 15\<rparr>) 1 1"
    by (simp add: pushUps_def)
  have h2: "recentLogs ?g = ?l # []"
    by (simp add: eval_defs)
  have h3: "reps ?l = Some 10" and h4: "pain0to10 ?l = Some 7"
    by simp_all
  have h5: "7 \<ge> painReduce (g_profile ?g)"
    by (simp add: p defaultProgression_def)
  have h6: "?l \<in> set (painFlags [?l] (g_profile ?g))"
    by (simp add: p painFlags_def slice0_def sort_newest_first_def defaultProgression_def)
  have v: "?v = \<lparr>volumeThisWeek = 10, volumePrevWeek = 0\<rparr>"
    by (simp add: eval_defs)
  have nc: "\<not> capHit ?v (g_profile ?g)"
    by (simp add: v capHit_def)
  have r: "max 1 (Math_round (10 * deloadVolumeFactor (g_profile ?g))) = 7"
    by (simp add: p defaultProgression_def Math_round_def floor_eq_iff)
  show ?thesis
    using reps_pain_deload [OF h1 refl h2 h3 h4 h5 h6 refl] nc r
    by simp
qed

section \<open>Exercise records without a range\<close>

text \<open>
  C2.  The specification promises that a record with missing configuration is filled
  with defaults before any computation, so that \<open>computeNextTarget\<close> never throws.  The
  \<open>hydrateExercise\<close> of the engine passes the record to the constructors unchanged, and
  these give defaults to the increments and to \<open>minRepsFloor\<close> but not to the ranges:
  for a rep-based record without \<open>repRange\<close>, and for an isometric record without
  \<open>durationRangeSec\<close>, \<open>computeNextTarget\<close> throws a \<open>TypeError\<close> for every log history
  and context.  The deployed copy normalises the record first and returns a default
  target for the same record (lemma \<open>docs_missing_range_default\<close>).
\<close>

theorem missing_range_throws:
  "computeNextTarget
     (hydrateExercise
        \<lparr>rec_type = ''reps'', rec_progressionProfile = None, rec_repRange = None,
         rec_repIncrement = None, rec_minRepsFloor = None, rec_loadIncrementKg = None,
         rec_durationRangeSec = None, rec_timeIncrementSec = None\<rparr>)
     logs c = Inl TypeError
   \<and> computeNextTarget
     (hydrateExercise
        \<lparr>rec_type = ''isometric'', rec_progressionProfile = None, rec_repRange = None,
         rec_repIncrement = None, rec_minRepsFloor = None, rec_loadIncrementKg = None,
         rec_durationRangeSec = None, rec_timeIncrementSec = None\<rparr>)
     logs c = Inl TypeError"
  by (simp add: hydrateExercise_def computeNextTarget_def RepsExercise_computeNextTarget_def
      IsometricExercise_computeNextTarget_def bind_err_def prop_min_def prop_max_def
      nullish_or_def Let_def split: option.splits)

section \<open>Repeated calls and the caller's array\<close>

text \<open>
  C7.  With the logs passed as the address of an array in the store: a call of the
  rep-based \<open>computeNextTarget\<close> returns what the function of the array's content
  returns, and leaves that array as it was (the in-place sorts run on the arrays that
  \<open>filter\<close> has just allocated).  A second call with the same arguments, made in the
  store the first call left behind, therefore returns the same result and again leaves
  the array untouched.
\<close>

theorem computeNextTarget_repeatable:
  assumes a: "a < length s"
    and first: "RepsExercise_computeNextTarget_store this a c s = (r1, s1)"
    and second: "RepsExercise_computeNextTarget_store this a c s1 = (r2, s2)"
  shows "r1 = r2 \<and> r1 = RepsExercise_computeNextTarget this (s ! a) c
       \<and> s1 ! a = s ! a \<and> s2 ! a = s ! a"
proof -
  obtain xs where x: "RepsExercise_computeNextTarget_store this a c s
            = (RepsExercise_computeNextTarget this (s ! a) c, s @ xs)"
    using RepsExercise_store_pure [OF a] by blast
  with first have r1: "r1 = RepsExercise_computeNextTarget this (s ! a) c" and s1: "s1 = s @ xs"
    by simp_all
  have a1: "a < length s1" and same1: "s1 ! a = s ! a"
    using a by (simp_all add: s1 nth_append)
  obtain ys where y: "RepsExercise_computeNextTarget_store this a c s1
            = (RepsExercise_computeNextTarget this (s1 ! a) c, s1 @ ys)"
    using RepsExercise_store_pure [OF a1] by blast
  with second have r2: "r2 = RepsExercise_computeNextTarget this (s1 ! a) c" and s2: "s2 = s1 @ ys"
    by simp_all
  have same2: "s2 ! a = s ! a"
    using a1 same1 by (simp add: s2 nth_append)
  show ?thesis
    using r1 r2 same1 same2 by simp
qed

text \<open>
  A store holding one array with the older log first, so that sorting it newest first
  in place would reorder it.
\<close>

theorem computeNextTarget_repeatable_witness:
  "fst (RepsExercise_computeNextTarget_store pushUps 0 day20
         [[\<lparr>timestamp = 10 * DAY_MS, status = ''complete'', reps = Some 10, loadKg = None,
             durationSec = None, rir = None, pain0to10 = None\<rparr>,
           \<lparr>timestamp = 19 * DAY_MS, status = ''complete'', reps = Some 20, loadKg = None,
             durationSec = None, rir = None, pain0to10 = None\<rparr>]])
     = Inr \<lparr>metricType = ''reps'', targetReps = Some 20, targetLoadKg = None,
            targetDurationSec = None, explanation = [''Volume cap hit; holding steady.''],
            frozen = False, deload = False\<rparr>
   \<and> fst (RepsExercise_computeNextTarget_store pushUps 0 day20
         (snd (RepsExercise_computeNextTarget_store pushUps 0 day20
           [[\<lparr>timestamp = 10 * DAY_MS, status = ''complete'', reps = Some 10, loadKg = None,
               durationSec = None, rir = None, pain0to10 = None\<rparr>,
             \<lparr>timestamp = 19 * DAY_MS, status = ''complete'', reps = Some 20, loadKg = None,
               durationSec = None, rir = None, pain0to10 = None\<rparr>]])))
     = Inr \<lparr>metricType = ''reps'', targetReps = Some 20, targetLoadKg = None,
            targetDurationSec = None, explanation = [''Volume cap hit; holding steady.''],
            frozen = False, deload = False\<rparr>
   \<and> snd (RepsExercise_computeNextTarget_store pushUps 0 day20
         (snd (RepsExercise_computeNextTarget_store pushUps 0 day20
           [[\<lparr>timestamp = 10 * DAY_MS, status = ''complete'', reps = Some 10, loadKg = None,
               durationSec = None, rir = None, pain0to10 = None\<rparr>,
             \<lparr>timestamp = 19 * DAY_MS, status = ''complete'', reps = Some 20, loadKg = None,
               durationSec = None, rir = None, pain0to10 = None\<rparr>]]))) ! 0
     = [\<lparr>timestamp = 10 * DAY_MS, status = ''complete'', reps = Some 10, loadKg = None,
          durationSec = None, rir = None, pain0to10 = None\<rparr>,
        \<lparr>timestamp = 19 * DAY_MS, status = ''complete'', reps = Some 20, loadKg = None,
          durationSec = None, rir = None, pain0to10 = None\<rparr>]"
proof -
  let ?L = "[\<lparr>timestamp = 10 * DAY_MS, status = ''complete'', reps = Some 10, loadKg = None,
               durationSec = None, rir = None, pain0to10 = None\<rparr>,
             \<lparr>timestamp = 19 * DAY_MS, status = ''complete'', reps = Some 20, loadKg = None,
               durationSec = None, rir = None, pain0to10 = None\<rparr>]"
  let ?run1 = "RepsExercise_computeNextTarget_store pushUps 0 day20 [?L]"
  let ?run2 = "RepsExercise_computeNextTarget_store pushUps 0 day20 (snd ?run1)"
  have h1: "0 < length [?L]"
    by simp
  have h2: "?run1 = (fst ?run1, snd ?run1)" and h3: "?run2 = (fst ?run2, snd ?run2)"
    by simp_all
  have pure: "RepsExercise_computeNextTarget pushUps ([?L] ! 0) day20
     = Inr \<lparr>metricType = ''reps'', targetReps = Some 20, targetLoadKg = None,
            targetDurationSec = None, explanation = [''Volume cap hit; holding steady.''],
            frozen = False, deload = False\<rparr>"
    by (simp add: eval_defs)
  have both: "fst ?run1 = fst ?run2"
    and one: "fst ?run1 = RepsExercise_computeNextTarget pushUps ([?L] ! 0) day20"
    and kept: "snd ?run2 ! 0 = [?L] ! 0"
    using computeNextTarget_repeatable [OF h1 h2 h3] by blast+
  have "fst ?run1 = Inr \<lparr>metricType = ''reps'', targetReps = Some 20, targetLoadKg = None,
            targetDurationSec = None, explanation = [''Volume cap hit; holding steady.''],
            frozen = False, deload = False\<rparr>"
    using one pure by (rule trans)
  moreover from this both have "fst ?run2 = Inr \<lparr>metricType = ''reps'', targetReps = Some 20,
            targetLoadKg = None, targetDurationSec = None,
            explanation = [''Volume cap hit; holding steady.''],
            frozen = False, deload = False\<rparr>"
    by simp
  moreover from kept have "snd ?run2 ! 0 = ?L"
    by simp
  ultimately show ?thesis
    by blast
qed

end
